theory Spec2Isabelle
  imports Complex_Main "HOL-Library.Word"
begin

unbundle bit_operations_syntax

section \<open>Python strings and integers\<close>

text \<open>
  A Python \<open>str\<close> is a sequence of code points. It is modelled as a \<open>string\<close>, a list
  of characters with code points 0 to 255, read as Latin-1: \<open>length\<close> counts code points.
  Python integers are unbounded and are modelled as \<open>int\<close>.
\<close>

definition py_startswith :: "string \<Rightarrow> string \<Rightarrow> bool" where
  "py_startswith s p = (take (length p) s = p)"

text \<open>\<open>s.split(sep)\<close> for a one-character separator: never empty, \<open>''.split('_') = ['']\<close>.\<close>

fun py_split :: "char \<Rightarrow> string \<Rightarrow> string list" where
  "py_split sep [] = [[]]"
| "py_split sep (c # cs) =
     (if c = sep then [] # py_split sep cs
      else (case py_split sep cs of [] \<Rightarrow> [[c]] | p # ps \<Rightarrow> (c # p) # ps))"

definition is_ascii_digit :: "char \<Rightarrow> bool" where
  "is_ascii_digit c = (c \<in> set ''0123456789'')"

text \<open>
  \<open>str.isdigit\<close>: the string is not empty and every character has the Unicode property
  Numeric_Type Digit or Decimal. Below code point 256 these are the ten ASCII digits and
  the superscripts two (0xB2), three (0xB3) and one (0xB9).
\<close>

definition py_isdigit_char :: "char \<Rightarrow> bool" where
  "py_isdigit_char c = (is_ascii_digit c \<or> c = CHR 0xB2 \<or> c = CHR 0xB3 \<or> c = CHR 0xB9)"

definition py_isdigit :: "string \<Rightarrow> bool" where
  "py_isdigit s = (s \<noteq> [] \<and> list_all py_isdigit_char s)"

definition digit_char :: "int \<Rightarrow> char" where
  "digit_char d = char_of (48 + d)"

definition digit_val :: "char \<Rightarrow> int" where
  "digit_val c = of_char c - 48"

text \<open>The decimal digits of a non-negative integer, most significant first.\<close>

function dec_digits :: "int \<Rightarrow> string" where
  "dec_digits n = (if n < 10 then [digit_char n] else dec_digits (n div 10) @ [digit_char (n mod 10)])"
  by pat_completeness auto
termination
  by (relation "measure nat") auto

text \<open>\<open>str(n)\<close>, which is also what \<open>f"{n}"\<close> gives for an \<open>int\<close>.\<close>

definition py_str :: "int \<Rightarrow> string" where
  "py_str n = (if n < 0 then CHR ''-'' # dec_digits (- n) else dec_digits n)"

definition zfill :: "nat \<Rightarrow> string \<Rightarrow> string" where
  "zfill k s = replicate (k - length s) CHR ''0'' @ s"

text \<open>\<open>f"{n:06d}"\<close>: width 6, zero fill after the sign.\<close>

definition fmt_06d :: "int \<Rightarrow> string" where
  "fmt_06d n = (if n < 0 then CHR ''-'' # zfill 5 (dec_digits (- n)) else zfill 6 (dec_digits n))"

definition dec_value :: "string \<Rightarrow> int" where
  "dec_value s = foldl (\<lambda>acc c. 10 * acc + digit_val c) 0 s"

text \<open>
  \<open>int(s)\<close> in base 10, \<open>None\<close> for \<open>ValueError\<close>: white space is stripped at both
  ends (below code point 256: 0x09 to 0x0D, 0x20, 0x85, 0xA0), a sign may come first, then
  ASCII digits, with single underscores allowed between two digits.
\<close>

definition is_int_space :: "char \<Rightarrow> bool" where
  "is_int_space c = (c \<in> set [CHR 0x09, CHR 0x0A, CHR 0x0B, CHR 0x0C, CHR 0x0D, CHR 0x20, CHR 0x85, CHR 0xA0])"

definition py_strip_int :: "string \<Rightarrow> string" where
  "py_strip_int s = rev (dropWhile is_int_space (rev (dropWhile is_int_space s)))"

fun int_digits :: "string \<Rightarrow> bool" where
  "int_digits [] = False"
| "int_digits [c] = is_ascii_digit c"
| "int_digits (c # d # ds) =
     (is_ascii_digit c \<and> (if d = CHR ''_'' then int_digits ds else int_digits (d # ds)))"

definition py_int :: "string \<Rightarrow> int option" where
  "py_int s =
     (let t = py_strip_int s;
          neg = (case t of [] \<Rightarrow> False | c # r \<Rightarrow> c = CHR ''-'');
          body = (case t of [] \<Rightarrow> [] | c # r \<Rightarrow> if c = CHR ''-'' \<or> c = CHR ''+'' then r else t)
      in if int_digits body
         then Some ((if neg then - 1 else 1) * dec_value (filter (\<lambda>c. c \<noteq> CHR ''_'') body))
         else None)"

text \<open>\<open>s.encode()\<close>: UTF-8, one byte below code point 128 and two bytes from 128 to 255.\<close>

type_synonym byte = "8 word"
type_synonym u32 = "32 word"

definition utf8_char :: "char \<Rightarrow> byte list" where
  "utf8_char c =
     (let b = (word_of_int (of_char c) :: byte)
      in if b < 0x80 then [b] else [0xC0 OR drop_bit 6 b, 0x80 OR (b AND 0x3F)])"

definition py_encode :: "string \<Rightarrow> byte list" where
  "py_encode s = concat (map utf8_char s)"

section \<open>MD5 (hashlib.md5, RFC 1321)\<close>

definition md5_shifts :: "nat list" where
  "md5_shifts = [7, 12, 17, 22, 7, 12, 17, 22, 7, 12, 17, 22, 7, 12, 17, 22,
                 5, 9, 14, 20, 5, 9, 14, 20, 5, 9, 14, 20, 5, 9, 14, 20,
                 4, 11, 16, 23, 4, 11, 16, 23, 4, 11, 16, 23, 4, 11, 16, 23,
                 6, 10, 15, 21, 6, 10, 15, 21, 6, 10, 15, 21, 6, 10, 15, 21]"

definition md5_consts :: "u32 list" where
  "md5_consts =
    [0xd76aa478, 0xe8c7b756, 0x242070db, 0xc1bdceee, 0xf57c0faf, 0x4787c62a, 0xa8304613, 0xfd469501,
     0x698098d8, 0x8b44f7af, 0xffff5bb1, 0x895cd7be, 0x6b901122, 0xfd987193, 0xa679438e, 0x49b40821,
     0xf61e2562, 0xc040b340, 0x265e5a51, 0xe9b6c7aa, 0xd62f105d, 0x02441453, 0xd8a1e681, 0xe7d3fbc8,
     0x21e1cde6, 0xc33707d6, 0xf4d50d87, 0x455a14ed, 0xa9e3e905, 0xfcefa3f8, 0x676f02d9, 0x8d2a4c8a,
     0xfffa3942, 0x8771f681, 0x6d9d6122, 0xfde5380c, 0xa4beea44, 0x4bdecfa9, 0xf6bb4b60, 0xbebfbc70,
     0x289b7ec6, 0xeaa127fa, 0xd4ef3085, 0x04881d05, 0xd9d4d039, 0xe6db99e5, 0x1fa27cf8, 0xc4ac5665,
     0xf4292244, 0x432aff97, 0xab9423a7, 0xfc93a039, 0x655b59c3, 0x8f0ccc92, 0xffeff47d, 0x85845dd1,
     0x6fa87e4f, 0xfe2ce6e0, 0xa3014314, 0x4e0811a1, 0xf7537e82, 0xbd3af235, 0x2ad7d2bb, 0xeb86d391]"

definition rotl32 :: "u32 \<Rightarrow> nat \<Rightarrow> u32" where
  "rotl32 x n = (push_bit n x) OR (drop_bit (32 - n) x)"

type_synonym md5_state = "u32 \<times> u32 \<times> u32 \<times> u32"

definition md5_round :: "u32 list \<Rightarrow> md5_state \<Rightarrow> nat \<Rightarrow> md5_state" where
  "md5_round m st i =
     (case st of (a, b, c, d) \<Rightarrow>
        let (f, g) =
              (if i < 16 then ((b AND c) OR (NOT b AND d), i)
               else if i < 32 then ((d AND b) OR (NOT d AND c), (5 * i + 1) mod 16)
               else if i < 48 then (b XOR c XOR d, (3 * i + 5) mod 16)
               else (c XOR (b OR NOT d), (7 * i) mod 16));
            f' = f + a + md5_consts ! i + m ! g
        in (d, b + rotl32 f' (md5_shifts ! i), b, c))"

fun le_word :: "byte list \<Rightarrow> u32" where
  "le_word [] = 0"
| "le_word (x # xs) = ucast x + push_bit 8 (le_word xs)"

fun chunks :: "nat \<Rightarrow> 'a list \<Rightarrow> 'a list list" where
  "chunks n [] = []"
| "chunks n xs = (if n = 0 then [xs] else take n xs # chunks n (drop n xs))"

definition md5_block :: "md5_state \<Rightarrow> byte list \<Rightarrow> md5_state" where
  "md5_block st blk =
     (case st of (a0, b0, c0, d0) \<Rightarrow>
        case foldl (md5_round (map le_word (chunks 4 blk))) st [0..<64] of
          (a, b, c, d) \<Rightarrow> (a0 + a, b0 + b, c0 + c, d0 + d))"

definition le_bytes32 :: "u32 \<Rightarrow> byte list" where
  "le_bytes32 w = map (\<lambda>i. ucast (drop_bit (8 * i) w)) [0..<4]"

definition le_bytes64 :: "64 word \<Rightarrow> byte list" where
  "le_bytes64 w = map (\<lambda>i. ucast (drop_bit (8 * i) w)) [0..<8]"

definition md5_pad :: "byte list \<Rightarrow> byte list" where
  "md5_pad msg =
     (let n = length msg
      in msg @ [0x80] @ replicate ((119 - n mod 64) mod 64) 0 @ le_bytes64 (8 * of_nat n))"

definition md5_digest :: "byte list \<Rightarrow> byte list" where
  "md5_digest msg =
     (case foldl md5_block (0x67452301, 0xefcdab89, 0x98badcfe, 0x10325476) (chunks 64 (md5_pad msg)) of
        (a, b, c, d) \<Rightarrow> concat (map le_bytes32 [a, b, c, d]))"

definition hex_digit :: "nat \<Rightarrow> char" where
  "hex_digit n = ''0123456789abcdef'' ! (n mod 16)"

definition hex_byte :: "byte \<Rightarrow> string" where
  "hex_byte b = [hex_digit (unat (drop_bit 4 b)), hex_digit (unat (b AND 15))]"

definition md5_hexdigest :: "byte list \<Rightarrow> string" where
  "md5_hexdigest msg = concat (map hex_byte (md5_digest msg))"

section \<open>QR code payloads (app/utils/security.py, app/utils/qr_code.py)\<close>

text \<open>
  \<open>generate_qr_code_data\<close>; the first argument is the value of \<open>int(time.time())\<close>
  that the call reads.
\<close>

definition generate_qr_code_data :: "int \<Rightarrow> string \<Rightarrow> int \<Rightarrow> string" where
  "generate_qr_code_data timestamp fitting_batch_id sequence_number =
     (let data_string = fitting_batch_id @ ''_'' @ py_str sequence_number @ ''_'' @ py_str timestamp;
          hash_hex = take 8 (md5_hexdigest (py_encode data_string))
      in ''QRTF_'' @ fitting_batch_id @ ''_'' @ fmt_06d sequence_number @ ''_'' @ hash_hex)"

text \<open>The value of the local variable \<open>hash_hex\<close> of \<open>generate_qr_code_data\<close>.\<close>

definition hash_hex :: "int \<Rightarrow> string \<Rightarrow> int \<Rightarrow> string" where
  "hash_hex timestamp fitting_batch_id sequence_number =
     take 8 (md5_hexdigest (py_encode
       (fitting_batch_id @ ''_'' @ py_str sequence_number @ ''_'' @ py_str timestamp)))"

definition validate_qr_code_data :: "string \<Rightarrow> bool" where
  "validate_qr_code_data data =
     (if \<not> py_startswith data ''QRTF_'' then False
      else case py_split CHR ''_'' data of
        [prefix, batch_id, sequence, hash_value] \<Rightarrow>
          if \<not> py_isdigit sequence \<or> length sequence \<noteq> 6 then False
          else if length hash_value \<noteq> 8 then False
          else True
      | _ \<Rightarrow> False)"

text \<open>
  The \<open>ValueError\<close>s that \<open>extract_qr_code_info\<close> catches: the one it raises itself,
  the one \<open>int\<close> raises, which carries the rejected literal, and the one of unpacking a
  list that has not four elements.
\<close>

datatype value_error = Invalid_QR_format | Invalid_int_literal string | Unpack_error

text \<open>
  The two dictionaries \<open>extract_qr_code_info\<close> returns: \<open>QR_info\<close> holds the keys
  prefix, batch_id, sequence_number and hash, with is_valid True; \<open>QR_invalid\<close> holds the
  key error, with is_valid False.
\<close>

datatype qr_info =
    QR_info string string int string
  | QR_invalid value_error

fun is_valid :: "qr_info \<Rightarrow> bool" where
  "is_valid (QR_info p b n h) = True"
| "is_valid (QR_invalid e) = False"

definition extract_qr_code_info :: "string \<Rightarrow> qr_info" where
  "extract_qr_code_info data =
     (if \<not> validate_qr_code_data data then QR_invalid Invalid_QR_format
      else case py_split CHR ''_'' data of
        [prefix, batch_id, sequence, hash_value] \<Rightarrow>
          (case py_int sequence of
             Some n \<Rightarrow> QR_info prefix batch_id n hash_value
           | None \<Rightarrow> QR_invalid (Invalid_int_literal sequence))
      | _ \<Rightarrow> QR_invalid Unpack_error)"

text \<open>
  The format of a scanned code as claim C8 words it, to be compared with
  \<open>validate_qr_code_data\<close>: the string starts with \<open>QRTF_\<close>, splits on underscores
  into exactly four parts, the third part is exactly six decimal digits (below code point
  256 the decimal digits are the ASCII digits) and the fourth part exactly eight characters.
\<close>

definition claimed_format :: "string \<Rightarrow> bool" where
  "claimed_format s =
     (py_startswith s ''QRTF_'' \<and>
      (case py_split CHR ''_'' s of
         [p0, p1, p2, p3] \<Rightarrow> length p2 = 6 \<and> list_all is_ascii_digit p2 \<and> length p3 = 8
       | _ \<Rightarrow> False))"

section \<open>Permissions and coordinates (app/utils/security.py)\<close>

definition role_hierarchy :: "string \<Rightarrow> string list" where
  "role_hierarchy user_role =
     (if user_role = ''super_admin'' then [''all'']
      else if user_role = ''admin'' then
        [''users'', ''zones'', ''divisions'', ''stations'', ''vendors'', ''manufacturers'',
         ''fitting_categories'', ''fitting_types'', ''supply_orders'', ''fitting_batches'',
         ''qr_codes'', ''installations'', ''inspections'', ''maintenance_records'',
         ''reports'', ''analytics'', ''integrations'', ''notifications'', ''search'', ''export'']
      else if user_role = ''manager'' then
        [''zones'', ''divisions'', ''stations'', ''fitting_categories'', ''fitting_types'',
         ''supply_orders'', ''fitting_batches'', ''qr_codes'', ''installations'',
         ''inspections'', ''maintenance_records'', ''reports'', ''analytics'', ''notifications'']
      else if user_role = ''inspector'' then
        [''inspections'', ''maintenance_records'', ''qr_codes'', ''notifications'']
      else if user_role = ''operator'' then [''qr_codes'', ''installations'', ''notifications'']
      else [])"

definition check_permissions :: "string \<Rightarrow> string \<Rightarrow> bool" where
  "check_permissions user_role required_permission =
     (let user_permissions = role_hierarchy user_role
      in if ''all'' \<in> set user_permissions then True
         else required_permission \<in> set user_permissions)"

definition validate_gps_coordinates :: "real \<Rightarrow> real \<Rightarrow> bool" where
  "validate_gps_coordinates lat lng = (- 90 \<le> lat \<and> lat \<le> 90 \<and> - 180 \<le> lng \<and> lng \<le> 180)"

section \<open>The document store (app/config/database.py)\<close>

text \<open>
  A collection is the list of its documents in insertion order. Document ids (\<open>_id\<close>)
  and the ids that requests carry are strings, compared by equality as the routers compare
  them. Of each document the fields that the routers below read or write are kept; images
  and the wall-clock fields (\<open>createdAt\<close>, \<open>updatedAt\<close>, \<open>installedAt\<close> and the like)
  are left out.
\<close>

type_synonym oid = string

record fitting_batch =
  batch_id :: oid
  qrCodesGenerated :: "int option"
  qrCodeCount :: "int option"

record qr_code =
  qr_id :: oid
  qrCode :: string
  fittingBatchId :: string
  sequenceNumber :: int
  qr_status :: string
  markingMachineId :: "string option"
  markingOperatorId :: "string option"
  createdBy :: "string option"
  qr_installedBy :: "string option"

record installation =
  inst_id :: oid
  qrCodeId :: oid
  zoneId :: string
  divisionId :: "string option"
  stationId :: "string option"
  trackSection :: string
  kilometerPost :: "string option"
  installationCoordinates :: "(real \<times> real) option"
  installedBy :: string
  inst_status :: string
  remarks :: "string option"
  updatedBy :: "string option"
  replacedBy :: "string option"
  retiredBy :: "string option"

record database =
  fitting_batches :: "fitting_batch list"
  qr_codes :: "qr_code list"
  fitting_installations :: "installation list"

text \<open>\<open>update_one\<close> with a \<open>$set\<close>: the first matching document is updated, if any.\<close>

fun update_one :: "('a \<Rightarrow> bool) \<Rightarrow> ('a \<Rightarrow> 'a) \<Rightarrow> 'a list \<Rightarrow> 'a list" where
  "update_one P f [] = []"
| "update_one P f (x # xs) = (if P x then f x # xs else x # update_one P f xs)"

text \<open>
  \<open>insert_one\<close>, \<open>None\<close> for \<open>DuplicateKeyError\<close>. \<open>create_indexes\<close> declares a unique
  index on \<open>qrCode\<close> for \<open>qr_codes\<close> and on \<open>qrCodeId\<close> for \<open>fitting_installations\<close>;
  \<open>_id\<close> is unique in every collection.
\<close>

definition insert_one_qr :: "qr_code \<Rightarrow> qr_code list \<Rightarrow> qr_code list option" where
  "insert_one_qr doc coll =
     (if qr_id doc \<in> set (map qr_id coll) \<or> qrCode doc \<in> set (map qrCode coll) then None
      else Some (coll @ [doc]))"

definition insert_one_installation :: "installation \<Rightarrow> installation list \<Rightarrow> installation list option" where
  "insert_one_installation doc coll =
     (if inst_id doc \<in> set (map inst_id coll) \<or> qrCodeId doc \<in> set (map qrCodeId coll) then None
      else Some (coll @ [doc]))"

text \<open>\<open>raise HTTPException(status_code, detail)\<close>.\<close>

datatype http_exception = HTTPException nat string

text \<open>Python's \<open>not x\<close> for a value that is a string or missing (\<open>None\<close>).\<close>

definition py_not :: "string option \<Rightarrow> bool" where
  "py_not x = (x = None \<or> x = Some [])"

section \<open>Batch generation (app/routers/qr_codes.py)\<close>

text \<open>
  The body of a generate-batch request, with the authenticated user. \<open>quantity\<close> is an
  integer or missing.
\<close>

record generate_request =
  gen_role :: string
  gen_userId :: string
  gen_fittingBatchId :: "string option"
  gen_quantity :: "int option"
  gen_markingMachineId :: "string option"
  gen_markingOperatorId :: "string option"

text \<open>
  The loop \<open>for i in range(quantity)\<close> of the router and of the service, over the list of
  the values of \<open>i\<close>. \<open>clock i\<close> is the value of \<open>int(time.time())\<close> read in iteration
  \<open>i\<close>, \<open>ids i\<close> the \<open>_id\<close> that the driver gives the document inserted in iteration
  \<open>i\<close>. The router's documents carry \<open>createdBy\<close>, the service's do not. The result is
  \<open>None\<close> when an insert raises; the documents inserted before stay in the collection.
  Rendering the image of the code is left out: it writes nothing but the image field.
\<close>

fun generate_loop ::
  "(nat \<Rightarrow> int) \<Rightarrow> (nat \<Rightarrow> oid) \<Rightarrow> string option \<Rightarrow> string option \<Rightarrow> string option \<Rightarrow>
     string \<Rightarrow> nat list \<Rightarrow> qr_code list \<Rightarrow> qr_code list \<Rightarrow> qr_code list option \<times> qr_code list" where
  "generate_loop clock ids created_by marking_machine_id marking_operator_id fitting_batch_id
     [] coll generated_qr_codes = (Some generated_qr_codes, coll)"
| "generate_loop clock ids created_by marking_machine_id marking_operator_id fitting_batch_id
     (i # is) coll generated_qr_codes =
     (let qr_data = generate_qr_code_data (clock i) fitting_batch_id (int i + 1);
          qr_doc = \<lparr> qr_id = ids i, qrCode = qr_data, fittingBatchId = fitting_batch_id,
                     sequenceNumber = int i + 1, qr_status = ''generated'',
                     markingMachineId = marking_machine_id,
                     markingOperatorId = marking_operator_id,
                     createdBy = created_by, qr_installedBy = None \<rparr>
      in case insert_one_qr qr_doc coll of
           None \<Rightarrow> (None, coll)
         | Some coll' \<Rightarrow>
             generate_loop clock ids created_by marking_machine_id marking_operator_id
               fitting_batch_id is coll' (generated_qr_codes @ [qr_doc]))"

definition generate_batch_qr_codes ::
  "(nat \<Rightarrow> int) \<Rightarrow> (nat \<Rightarrow> oid) \<Rightarrow> generate_request \<Rightarrow> database \<Rightarrow>
     (http_exception + qr_code list) \<times> database" where
  "generate_batch_qr_codes clock ids req db =
     (if \<not> check_permissions (gen_role req) ''qr_codes''
      then (Inl (HTTPException 403 ''Insufficient permissions''), db)
      else if py_not (gen_fittingBatchId req)
      then (Inl (HTTPException 400 ''Fitting batch ID is required''), db)
      else
        let fitting_batch_id = the (gen_fittingBatchId req);
            quantity = (case gen_quantity req of None \<Rightarrow> 1 | Some q \<Rightarrow> q)
        in if quantity \<le> 0 \<or> quantity > 10000
           then (Inl (HTTPException 400 ''Quantity must be between 1 and 10000''), db)
           else case find (\<lambda>b. batch_id b = fitting_batch_id) (fitting_batches db) of
             None \<Rightarrow> (Inl (HTTPException 404 ''Fitting batch not found''), db)
           | Some batch \<Rightarrow>
               (case generate_loop clock ids (Some (gen_userId req)) (gen_markingMachineId req)
                       (gen_markingOperatorId req) fitting_batch_id [0..<nat quantity]
                       (qr_codes db) [] of
                  (None, coll) \<Rightarrow>
                    (Inl (HTTPException 500 ''Failed to generate QR codes''), db\<lparr>qr_codes := coll\<rparr>)
                | (Some generated_qr_codes, coll) \<Rightarrow>
                    (Inr generated_qr_codes,
                     db\<lparr>qr_codes := coll,
                        fitting_batches :=
                          update_one (\<lambda>b. batch_id b = fitting_batch_id)
                            (\<lambda>b. b\<lparr>qrCodesGenerated := Some quantity\<rparr>) (fitting_batches db)\<rparr>)))"

section \<open>The service (app/services/qr_service.py)\<close>

text \<open>
  \<open>QRCodeService.generate_qr_codes_for_batch\<close>: no permission or quantity check; the
  exceptions it re-raises are the \<open>ValueError\<close> of a missing batch and the error of a
  failed insert.
\<close>

datatype service_error = Batch_not_found | Insert_failed

definition generate_qr_codes_for_batch ::
  "(nat \<Rightarrow> int) \<Rightarrow> (nat \<Rightarrow> oid) \<Rightarrow> string \<Rightarrow> int \<Rightarrow> string option \<Rightarrow> string option \<Rightarrow>
     database \<Rightarrow> (service_error + qr_code list) \<times> database" where
  "generate_qr_codes_for_batch clock ids fitting_batch_id quantity marking_machine_id
     marking_operator_id db =
     (case find (\<lambda>b. batch_id b = fitting_batch_id) (fitting_batches db) of
        None \<Rightarrow> (Inl Batch_not_found, db)
      | Some batch \<Rightarrow>
          (case generate_loop clock ids None marking_machine_id marking_operator_id
                  fitting_batch_id [0..<nat quantity] (qr_codes db) [] of
             (None, coll) \<Rightarrow> (Inl Insert_failed, db\<lparr>qr_codes := coll\<rparr>)
           | (Some qr_codes', coll) \<Rightarrow>
               (Inr qr_codes',
                db\<lparr>qr_codes := coll,
                   fitting_batches :=
                     update_one (\<lambda>b. batch_id b = fitting_batch_id)
                       (\<lambda>b. b\<lparr>qrCodeCount := Some quantity\<rparr>) (fitting_batches db)\<rparr>)))"

section \<open>Installations (app/routers/installations.py)\<close>

text \<open>
  The body of a create-installation request, with the authenticated user. The coordinates
  are an object with numeric \<open>lat\<close> and \<open>lng\<close>, or missing.
\<close>

record installation_request =
  ins_role :: string
  ins_userId :: string
  ins_qrCodeId :: "string option"
  ins_zoneId :: "string option"
  ins_divisionId :: "string option"
  ins_stationId :: "string option"
  ins_trackSection :: "string option"
  ins_kilometerPost :: "string option"
  ins_installationCoordinates :: "(real \<times> real) option"
  ins_remarks :: "string option"

text \<open>
  \<open>create_installation\<close>. \<open>new_id\<close> is the \<open>_id\<close> the driver gives the inserted document.
  \<open>feb29\<close> says that \<open>datetime.utcnow()\<close> falls on a 29th of February: then
  \<open>replace(year=year + 2)\<close> raises \<open>ValueError\<close> while the document is built, before
  anything is written.
\<close>

definition create_installation ::
  "oid \<Rightarrow> bool \<Rightarrow> installation_request \<Rightarrow> database \<Rightarrow> (http_exception + installation) \<times> database" where
  "create_installation new_id feb29 req db =
     (if \<not> check_permissions (ins_role req) ''installations''
      then (Inl (HTTPException 403 ''Insufficient permissions''), db)
      else if py_not (ins_qrCodeId req)
      then (Inl (HTTPException 400 ''QR code ID is required''), db)
      else if py_not (ins_zoneId req)
      then (Inl (HTTPException 400 ''Zone ID is required''), db)
      else if py_not (ins_trackSection req)
      then (Inl (HTTPException 400 ''Track section is required''), db)
      else if (case ins_installationCoordinates req of
                 None \<Rightarrow> False
               | Some (lat, lng) \<Rightarrow> \<not> validate_gps_coordinates lat lng)
      then (Inl (HTTPException 400 ''Invalid GPS coordinates''), db)
      else
        let qr_code_id = the (ins_qrCodeId req)
        in case find (\<lambda>q. qr_id q = qr_code_id) (qr_codes db) of
             None \<Rightarrow> (Inl (HTTPException 404 ''QR code not found''), db)
           | Some qr_code \<Rightarrow>
               (case find (\<lambda>i. qrCodeId i = qr_code_id) (fitting_installations db) of
                  Some existing_installation \<Rightarrow>
                    (Inl (HTTPException 400 ''QR code is already installed''), db)
                | None \<Rightarrow>
                    if feb29 then (Inl (HTTPException 500 ''Failed to create installation''), db)
                    else
                      let installation_doc =
                            \<lparr> inst_id = new_id, qrCodeId = qr_code_id,
                              zoneId = the (ins_zoneId req),
                              divisionId = ins_divisionId req,
                              stationId = ins_stationId req,
                              trackSection = the (ins_trackSection req),
                              kilometerPost = ins_kilometerPost req,
                              installationCoordinates = ins_installationCoordinates req,
                              installedBy = ins_userId req,
                              inst_status = ''installed'',
                              remarks = ins_remarks req,
                              updatedBy = None, replacedBy = None, retiredBy = None \<rparr>
                      in case insert_one_installation installation_doc (fitting_installations db) of
                           None \<Rightarrow> (Inl (HTTPException 500 ''Failed to create installation''), db)
                         | Some coll \<Rightarrow>
                             (Inr installation_doc,
                              db\<lparr>fitting_installations := coll,
                                 qr_codes :=
                                   update_one (\<lambda>q. qr_id q = qr_code_id)
                                     (\<lambda>q. q\<lparr>qr_status := ''installed'',
                                              qr_installedBy := Some (ins_userId req)\<rparr>)
                                     (qr_codes db)\<rparr>)))"

text \<open>The path parameter and the body of a status update, with the authenticated user.\<close>

record status_request =
  upd_role :: string
  upd_userId :: string
  upd_installation_id :: oid
  upd_status :: "string option"
  upd_remarks :: "string option"

definition valid_statuses :: "string list" where
  "valid_statuses = [''installed'', ''in_service'', ''maintenance_due'', ''replaced'', ''retired'']"

text \<open>
  The detail of the error for a status outside \<open>valid_statuses\<close>: the f-string's text,
  with the list as Python prints it.
\<close>

definition invalid_status_detail :: string where
  "invalid_status_detail =
     ''Invalid status. Valid options: ['' @
     [CHR 0x27] @ ''installed'' @ [CHR 0x27] @ '', '' @
     [CHR 0x27] @ ''in_service'' @ [CHR 0x27] @ '', '' @
     [CHR 0x27] @ ''maintenance_due'' @ [CHR 0x27] @ '', '' @
     [CHR 0x27] @ ''replaced'' @ [CHR 0x27] @ '', '' @
     [CHR 0x27] @ ''retired'' @ [CHR 0x27] @ '']''"

text \<open>The \<open>$set\<close> that \<open>update_installation_status\<close> builds in \<open>update_data\<close>.\<close>

definition set_update_data :: "status_request \<Rightarrow> string \<Rightarrow> installation \<Rightarrow> installation" where
  "set_update_data req new_status doc =
     (let d1 = doc\<lparr>inst_status := new_status, updatedBy := Some (upd_userId req)\<rparr>;
          d2 = (if \<not> py_not (upd_remarks req) then d1\<lparr>remarks := upd_remarks req\<rparr> else d1)
      in if new_status = ''replaced'' then d2\<lparr>replacedBy := Some (upd_userId req)\<rparr>
         else if new_status = ''retired'' then d2\<lparr>retiredBy := Some (upd_userId req)\<rparr>
         else d2)"

definition update_installation_status ::
  "status_request \<Rightarrow> database \<Rightarrow> (http_exception + installation) \<times> database" where
  "update_installation_status req db =
     (if \<not> check_permissions (upd_role req) ''installations''
      then (Inl (HTTPException 403 ''Insufficient permissions''), db)
      else if py_not (upd_status req)
      then (Inl (HTTPException 400 ''Status is required''), db)
      else
        let new_status = the (upd_status req);
            installation_id = upd_installation_id req
        in if new_status \<notin> set valid_statuses
           then (Inl (HTTPException 400 invalid_status_detail), db)
           else case find (\<lambda>i. inst_id i = installation_id) (fitting_installations db) of
             None \<Rightarrow> (Inl (HTTPException 404 ''Installation not found''), db)
           | Some installation \<Rightarrow>
               let installations' =
                     update_one (\<lambda>i. inst_id i = installation_id) (set_update_data req new_status)
                       (fitting_installations db);
                   qr_codes' =
                     update_one (\<lambda>q. qr_id q = qrCodeId installation)
                       (\<lambda>q. q\<lparr>qr_status := new_status\<rparr>) (qr_codes db);
                   db' = db\<lparr>fitting_installations := installations', qr_codes := qr_codes'\<rparr>
               in case find (\<lambda>i. inst_id i = installation_id) installations' of
                    None \<Rightarrow> (Inl (HTTPException 500 ''Failed to update installation status''), db')
                  | Some updated_installation \<Rightarrow> (Inr updated_installation, db'))"

text \<open>
  Two abbreviations for what \<open>create_installation\<close> does: \<open>request_accepted\<close> is
  the conjunction of its checks on the request alone (permission, required fields,
  coordinates), made before any lookup; \<open>new_installation\<close> is the document it builds in
  \<open>installation_doc\<close>.
\<close>

definition request_accepted :: "installation_request \<Rightarrow> bool" where
  "request_accepted req =
     (check_permissions (ins_role req) ''installations'' \<and> \<not> py_not (ins_qrCodeId req) \<and>
      \<not> py_not (ins_zoneId req) \<and> \<not> py_not (ins_trackSection req) \<and>
      (case ins_installationCoordinates req of
         None \<Rightarrow> True
       | Some (lat, lng) \<Rightarrow> validate_gps_coordinates lat lng))"

definition new_installation :: "oid \<Rightarrow> installation_request \<Rightarrow> installation" where
  "new_installation new_id req =
     \<lparr> inst_id = new_id, qrCodeId = the (ins_qrCodeId req), zoneId = the (ins_zoneId req),
       divisionId = ins_divisionId req, stationId = ins_stationId req,
       trackSection = the (ins_trackSection req), kilometerPost = ins_kilometerPost req,
       installationCoordinates = ins_installationCoordinates req,
       installedBy = ins_userId req, inst_status = ''installed'', remarks = ins_remarks req,
       updatedBy = None, replacedBy = None, retiredBy = None \<rparr>"

section \<open>Requests in sequence\<close>

text \<open>
  The store after a sequence of calls, each handled to its end before the next: the three
  routers and the service above, each with the values its call reads from the clock and
  the ids the driver generates for it. These are the functions that insert into
  \<open>qr_codes\<close> and \<open>fitting_installations\<close> or write the status of an installation.
\<close>

datatype call =
    Generate_batch "nat \<Rightarrow> int" "nat \<Rightarrow> oid" generate_request
  | Generate_for_batch "nat \<Rightarrow> int" "nat \<Rightarrow> oid" string int "string option" "string option"
  | Create_installation oid bool installation_request
  | Update_status status_request

fun handle :: "call \<Rightarrow> database \<Rightarrow> database" where
  "handle (Generate_batch clock ids req) db = snd (generate_batch_qr_codes clock ids req db)"
| "handle (Generate_for_batch clock ids b quantity machine operator) db =
     snd (generate_qr_codes_for_batch clock ids b quantity machine operator db)"
| "handle (Create_installation new_id feb29 req) db = snd (create_installation new_id feb29 req db)"
| "handle (Update_status req) db = snd (update_installation_status req db)"

definition serve :: "call list \<Rightarrow> database \<Rightarrow> database" where
  "serve calls db = foldl (\<lambda>d c. handle c d) db calls"

section \<open>Example data\<close>

text \<open>
  The requests of the routers' docstrings and the scenario of the specification (batch
  \<open>B1\<close>, its first code installed at 13.0827, 80.2707), used where a statement is
  evaluated on a concrete input.
\<close>

definition ex_db0 :: database where
  "ex_db0 = \<lparr> fitting_batches = [\<lparr> batch_id = ''B1'', qrCodesGenerated = None, qrCodeCount = None \<rparr>],
              qr_codes = [], fitting_installations = [] \<rparr>"

definition ex_generate :: generate_request where
  "ex_generate = \<lparr> gen_role = ''operator'', gen_userId = ''u1'',
                   gen_fittingBatchId = Some ''B1'', gen_quantity = Some 1,
                   gen_markingMachineId = Some ''LASER-001'',
                   gen_markingOperatorId = Some ''operator123'' \<rparr>"

definition ex_qr :: "string \<Rightarrow> qr_code" where
  "ex_qr st = \<lparr> qr_id = ''q1'', qrCode = ''QRTF_B1_000001_4c554774'', fittingBatchId = ''B1'',
                sequenceNumber = 1, qr_status = st, markingMachineId = Some ''LASER-001'',
                markingOperatorId = Some ''operator123'', createdBy = Some ''u1'',
                qr_installedBy = None \<rparr>"

definition ex_installation :: "string \<Rightarrow> installation" where
  "ex_installation st = \<lparr> inst_id = ''i1'', qrCodeId = ''q1'', zoneId = ''z1'',
                          divisionId = None, stationId = None, trackSection = ''Section A-1'',
                          kilometerPost = Some ''KM 10.5'',
                          installationCoordinates = Some (13.0827, 80.2707),
                          installedBy = ''u1'', inst_status = st, remarks = None,
                          updatedBy = None, replacedBy = None, retiredBy = None \<rparr>"

definition ex_db_qr :: "string \<Rightarrow> database" where
  "ex_db_qr st = \<lparr> fitting_batches = [\<lparr> batch_id = ''B1'', qrCodesGenerated = Some 1, qrCodeCount = None \<rparr>],
                   qr_codes = [ex_qr st], fitting_installations = [] \<rparr>"

definition ex_db_installed :: "string \<Rightarrow> database" where
  "ex_db_installed st = \<lparr> fitting_batches = [\<lparr> batch_id = ''B1'', qrCodesGenerated = Some 1, qrCodeCount = None \<rparr>],
                          qr_codes = [ex_qr st], fitting_installations = [ex_installation st] \<rparr>"

definition ex_install :: installation_request where
  "ex_install = \<lparr> ins_role = ''operator'', ins_userId = ''u1'', ins_qrCodeId = Some ''q1'',
                  ins_zoneId = Some ''z1'', ins_divisionId = None, ins_stationId = None,
                  ins_trackSection = Some ''Section A-1'', ins_kilometerPost = Some ''KM 10.5'',
                  ins_installationCoordinates = Some (13.0827, 80.2707), ins_remarks = None \<rparr>"

definition ex_update :: "string \<Rightarrow> status_request" where
  "ex_update s = \<lparr> upd_role = ''operator'', upd_userId = ''u1'', upd_installation_id = ''i1'',
                   upd_status = Some s, upd_remarks = None \<rparr>"


section \<open>Facts about the string and integer primitives\<close>

declare dec_digits.simps [simp del]

lemma py_split_not_Nil: "py_split sep s \<noteq> []"
  by (induction s) (auto split: list.splits)

lemma py_split_no_sep: "sep \<notin> set a \<Longrightarrow> py_split sep a = [a]"
  by (induction a) auto

lemma py_split_append: "sep \<notin> set a \<Longrightarrow> py_split sep (a @ sep # r) = a # py_split sep r"
  by (induction a) auto

lemma sep_unique:
  "sep \<notin> set a \<Longrightarrow> sep \<notin> set a' \<Longrightarrow> a @ sep # r = a' @ sep # r' \<Longrightarrow> a = a' \<and> r = r'"
proof (induction a arbitrary: a')
  case Nil
  then show ?case by (cases a') auto
next
  case (Cons x xs)
  then show ?case by (cases a') auto
qed

lemma digit_char_cases:
  assumes "0 \<le> d" "d < 10"
  shows "d = 0 \<or> d = 1 \<or> d = 2 \<or> d = 3 \<or> d = 4 \<or> d = 5 \<or> d = 6 \<or> d = 7 \<or> d = 8 \<or> d = (9::int)"
  using assms by arith

lemma digit_char_table:
  "digit_char 0 = CHR ''0''" "digit_char 1 = CHR ''1''" "digit_char 2 = CHR ''2''"
  "digit_char 3 = CHR ''3''" "digit_char 4 = CHR ''4''" "digit_char 5 = CHR ''5''"
  "digit_char 6 = CHR ''6''" "digit_char 7 = CHR ''7''" "digit_char 8 = CHR ''8''"
  "digit_char 9 = CHR ''9''"
  by code_simp+

lemma digit_char_ascii: "0 \<le> d \<Longrightarrow> d < 10 \<Longrightarrow> is_ascii_digit (digit_char d)"
  using digit_char_cases [of d]
  by (auto simp: digit_char_table is_ascii_digit_def)

lemma digit_val_digit_char: "0 \<le> d \<Longrightarrow> d < 10 \<Longrightarrow> digit_val (digit_char d) = d"
  by (simp add: digit_val_def digit_char_def)

lemma dec_digits_ascii: "0 \<le> n \<Longrightarrow> list_all is_ascii_digit (dec_digits n)"
proof (induction n rule: dec_digits.induct)
  case (1 n)
  show ?case
  proof (cases "n < 10")
    case True
    with 1 show ?thesis by (subst dec_digits.simps) (simp add: digit_char_ascii)
  next
    case False
    with 1 show ?thesis by (subst dec_digits.simps) (simp add: digit_char_ascii)
  qed
qed

lemma dec_digits_not_Nil: "dec_digits n \<noteq> []"
  by (subst dec_digits.simps) simp

lemma dec_value_snoc: "dec_value (s @ [c]) = 10 * dec_value s + digit_val c"
  by (simp add: dec_value_def)

lemma dec_value_dec_digits: "0 \<le> n \<Longrightarrow> dec_value (dec_digits n) = n"
proof (induction n rule: dec_digits.induct)
  case (1 n)
  show ?case
  proof (cases "n < 10")
    case True
    with 1 show ?thesis
      by (subst dec_digits.simps) (simp add: dec_value_def digit_val_digit_char)
  next
    case False
    with 1 show ?thesis
      by (subst dec_digits.simps) (simp add: dec_value_snoc digit_val_digit_char)
  qed
qed

lemma length_dec_digits: "0 \<le> n \<Longrightarrow> n < 10 ^ k \<Longrightarrow> 0 < k \<Longrightarrow> length (dec_digits n) \<le> k"
proof (induction n arbitrary: k rule: dec_digits.induct)
  case (1 n)
  show ?case
  proof (cases "n < 10")
    case True
    with 1 show ?thesis by (subst dec_digits.simps) simp
  next
    case False
    obtain j where k: "k = Suc j" using 1(4) by (cases k) auto
    have "10 ^ 1 \<le> n" using False by simp
    have j0: "0 < j"
    proof (rule ccontr)
      assume "\<not> 0 < j" then have "k = 1" using k by simp
      with 1(3) False show False by simp
    qed
    have "n div 10 < 10 ^ j" using 1(3) k by auto
    with 1 False j0 have "length (dec_digits (n div 10)) \<le> j" by simp
    with False k show ?thesis by (subst dec_digits.simps) simp
  qed
qed

lemma ascii_digit_not_special:
  "is_ascii_digit c \<Longrightarrow> c \<noteq> CHR ''_'' \<and> c \<noteq> CHR ''-'' \<and> c \<noteq> CHR ''+'' \<and> \<not> is_int_space c"
  by (auto simp: is_ascii_digit_def is_int_space_def)

lemma isdigit_char_not_special:
  "py_isdigit_char c \<Longrightarrow> c \<noteq> CHR ''_'' \<and> c \<noteq> CHR ''-'' \<and> c \<noteq> CHR ''+'' \<and> \<not> is_int_space c"
  by (auto simp: py_isdigit_char_def is_ascii_digit_def is_int_space_def)

lemma int_digits_all: "s \<noteq> [] \<Longrightarrow> list_all is_ascii_digit s \<Longrightarrow> int_digits s"
  by (induction s rule: int_digits.induct) (auto dest: ascii_digit_not_special)

lemma int_digits_chars: "int_digits s \<Longrightarrow> list_all (\<lambda>c. is_ascii_digit c \<or> c = CHR ''_'') s"
  by (induction s rule: int_digits.induct) (auto split: if_splits)

lemma py_strip_int_id:
  "s \<noteq> [] \<Longrightarrow> \<not> is_int_space (hd s) \<Longrightarrow> \<not> is_int_space (last s) \<Longrightarrow> py_strip_int s = s"
proof -
  assume a: "s \<noteq> []" "\<not> is_int_space (hd s)" "\<not> is_int_space (last s)"
  have 1: "dropWhile is_int_space s = s" using a by (cases s) auto
  have 2: "dropWhile is_int_space (rev s) = rev s"
    using a by (cases "rev s") (auto simp: last_rev hd_rev)
  show ?thesis by (simp add: py_strip_int_def 1 2)
qed

lemma filter_us_digits: "list_all is_ascii_digit s \<Longrightarrow> filter (\<lambda>c. c \<noteq> CHR ''_'') s = s"
  by (induction s) (auto dest: ascii_digit_not_special)

lemma py_int_digits:
  assumes "s \<noteq> []" "list_all is_ascii_digit s"
  shows "py_int s = Some (dec_value s)"
proof -
  obtain c r where s: "s = c # r" using assms(1) by (cases s) auto
  have hd: "is_ascii_digit (hd s)" using assms by (cases s) auto
  have la: "is_ascii_digit (last s)" using assms by (simp add: list_all_iff)
  have st: "py_strip_int s = s"
    using assms(1) hd la by (intro py_strip_int_id) (auto dest: ascii_digit_not_special)
  have c: "c \<noteq> CHR ''-''" "c \<noteq> CHR ''+''" using hd s by (auto dest: ascii_digit_not_special)
  show ?thesis
    using c int_digits_all [OF assms] filter_us_digits [OF assms(2)]
    by (simp add: py_int_def st [unfolded s] s Let_def)
qed

lemma py_int_minus_digits:
  assumes "s \<noteq> []" "list_all is_ascii_digit s"
  shows "py_int (CHR ''-'' # s) = Some (- dec_value s)"
proof -
  have la: "is_ascii_digit (last s)" using assms by (simp add: list_all_iff)
  have "\<not> is_int_space CHR ''-''" by (simp add: is_int_space_def)
  moreover have "\<not> is_int_space (last (CHR ''-'' # s))"
    using assms(1) la by (auto dest: ascii_digit_not_special)
  ultimately have st: "py_strip_int (CHR ''-'' # s) = CHR ''-'' # s"
    by (intro py_strip_int_id) auto
  show ?thesis
    using int_digits_all [OF assms] filter_us_digits [OF assms(2)]
    by (simp add: py_int_def st Let_def)
qed

lemma py_int_not_digits:
  assumes "list_all py_isdigit_char s" "\<not> list_all is_ascii_digit s"
  shows "py_int s = None"
proof -
  have ne: "s \<noteq> []" using assms(2) by auto
  then obtain c r where s: "s = c # r" by (cases s) auto
  have hd: "py_isdigit_char (hd s)" using assms(1) ne by (cases s) auto
  have la: "py_isdigit_char (last s)" using assms(1) ne by (simp add: list_all_iff)
  have st: "py_strip_int s = s"
    using ne hd la by (intro py_strip_int_id) (auto dest: isdigit_char_not_special)
  have c: "c \<noteq> CHR ''-''" "c \<noteq> CHR ''+''" using hd s by (auto dest: isdigit_char_not_special)
  have "\<not> int_digits s"
  proof
    assume "int_digits s"
    then have "list_all (\<lambda>c. is_ascii_digit c \<or> c = CHR ''_'') s" by (rule int_digits_chars)
    with assms show False by (auto simp: list_all_iff dest: isdigit_char_not_special)
  qed
  then show ?thesis using c by (simp add: py_int_def st [unfolded s] s Let_def)
qed

lemma dec_value_zeros: "dec_value (replicate k CHR ''0'' @ s) = dec_value s"
proof -
  have "foldl (\<lambda>acc c. 10 * acc + digit_val c) 0 (replicate k CHR ''0'') = 0"
    by (induction k) (simp_all add: digit_val_def)
  then show ?thesis by (simp add: dec_value_def)
qed

lemma zfill_ascii: "list_all is_ascii_digit s \<Longrightarrow> list_all is_ascii_digit (zfill k s)"
proof -
  have "is_ascii_digit CHR ''0''" by (simp add: is_ascii_digit_def)
  then show "list_all is_ascii_digit s \<Longrightarrow> list_all is_ascii_digit (zfill k s)"
    by (auto simp: zfill_def list_all_iff)
qed

lemma zfill_not_Nil: "s \<noteq> [] \<Longrightarrow> zfill k s \<noteq> []"
  by (simp add: zfill_def)

lemma dec_value_zfill: "dec_value (zfill k s) = dec_value s"
  by (simp add: zfill_def dec_value_zeros)

lemma py_int_fmt_06d: "py_int (fmt_06d n) = Some n"
proof (cases "n < 0")
  case True
  then have "0 \<le> - n" by simp
  then show ?thesis
    using True py_int_minus_digits [of "zfill 5 (dec_digits (- n))"]
    by (simp add: fmt_06d_def zfill_ascii zfill_not_Nil dec_digits_ascii dec_digits_not_Nil
        dec_value_zfill dec_value_dec_digits)
next
  case False
  then show ?thesis
    using py_int_digits [of "zfill 6 (dec_digits n)"]
    by (simp add: fmt_06d_def zfill_ascii zfill_not_Nil dec_digits_ascii dec_digits_not_Nil
        dec_value_zfill dec_value_dec_digits)
qed

lemma fmt_06d_inj:
  assumes "fmt_06d m = fmt_06d n"
  shows "m = n"
proof -
  have "Some m = py_int (fmt_06d m)" by (simp only: py_int_fmt_06d)
  also have "\<dots> = py_int (fmt_06d n)" by (simp only: assms)
  also have "\<dots> = Some n" by (simp only: py_int_fmt_06d)
  finally show ?thesis by simp
qed

lemma fmt_06d_no_sep: "CHR ''_'' \<notin> set (fmt_06d n)"
proof -
  have "list_all is_ascii_digit (zfill k (dec_digits m))" if "0 \<le> m" for k m
    using that by (simp add: zfill_ascii dec_digits_ascii)
  then have "CHR ''_'' \<notin> set (zfill k (dec_digits m))" if "0 \<le> m" for k m
    using that ascii_digit_not_special [of "CHR ''_''"] by (auto simp: list_all_iff)
  then show ?thesis
    by (cases "n < 0") (simp_all add: fmt_06d_def)
qed

lemma fmt_06d_in_range:
  assumes "0 \<le> n" "n \<le> 999999"
  shows "length (fmt_06d n) = 6 \<and> list_all is_ascii_digit (fmt_06d n)"
proof -
  have "n < 10 ^ 6" using assms by simp
  then have "length (dec_digits n) \<le> 6" using assms(1) by (intro length_dec_digits) auto
  then show ?thesis using assms
    by (simp add: fmt_06d_def zfill_ascii dec_digits_ascii) (simp add: zfill_def)
qed

lemma hex_digit_in: "hex_digit k \<in> set ''0123456789abcdef''"
  unfolding hex_digit_def by (rule nth_mem) simp

lemma hex_byte_props: "length (hex_byte b) = 2 \<and> set (hex_byte b) \<subseteq> set ''0123456789abcdef''"
  using hex_digit_in by (simp add: hex_byte_def)

lemma length_md5_digest: "length (md5_digest m) = 16"
  by (simp add: md5_digest_def le_bytes32_def split: prod.splits)

lemma md5_hexdigest_chars: "set (md5_hexdigest m) \<subseteq> set ''0123456789abcdef''"
  unfolding md5_hexdigest_def using hex_byte_props by fastforce

lemma length_concat_const: "\<forall>x\<in>set xs. length x = k \<Longrightarrow> length (concat xs) = k * length xs"
  by (induction xs) auto

lemma length_md5_hexdigest: "length (md5_hexdigest m) = 32"
  unfolding md5_hexdigest_def
  using length_concat_const [of "map hex_byte (md5_digest m)" 2]
  by (simp add: hex_byte_props length_md5_digest)

lemma hash_hex_props: "length (hash_hex ts b n) = 8 \<and> CHR ''_'' \<notin> set (hash_hex ts b n)"
proof -
  have "set (hash_hex ts b n) \<subseteq> set ''0123456789abcdef''"
    unfolding hash_hex_def using md5_hexdigest_chars set_take_subset by fast
  then have "CHR ''_'' \<notin> set (hash_hex ts b n)" by auto
  then show ?thesis by (simp add: hash_hex_def length_md5_hexdigest)
qed

lemma generate_shape:
  "generate_qr_code_data ts b n = ''QRTF'' @ CHR ''_'' # b @ CHR ''_'' # fmt_06d n @ CHR ''_'' # hash_hex ts b n"
  by (simp add: generate_qr_code_data_def hash_hex_def Let_def)

section \<open>Facts about the QR code payload\<close>

lemma sep_unique_right:
  assumes "sep \<notin> set r" "sep \<notin> set r'" "a @ sep # r = a' @ sep # r'"
  shows "a = a' \<and> r = r'"
proof -
  have "rev (a @ sep # r) = rev (a' @ sep # r')" using assms(3) by simp
  then have "rev r @ sep # rev a = rev r' @ sep # rev a'" by simp
  then have "rev r = rev r' \<and> rev a = rev a'"
    using assms(1,2) by (intro sep_unique [of sep]) auto
  then show ?thesis by simp
qed

lemma generate_inj:
  assumes "generate_qr_code_data ts1 b1 n1 = generate_qr_code_data ts2 b2 n2"
  shows "b1 = b2 \<and> n1 = n2"
proof -
  let ?h1 = "hash_hex ts1 b1 n1" and ?h2 = "hash_hex ts2 b2 n2"
  have e: "(b1 @ CHR ''_'' # fmt_06d n1) @ CHR ''_'' # ?h1 = (b2 @ CHR ''_'' # fmt_06d n2) @ CHR ''_'' # ?h2"
    using assms by (simp add: generate_shape)
  have 1: "b1 @ CHR ''_'' # fmt_06d n1 = b2 @ CHR ''_'' # fmt_06d n2"
    using sep_unique_right [OF _ _ e] hash_hex_props by blast
  have "b1 = b2 \<and> fmt_06d n1 = fmt_06d n2"
    using sep_unique_right [OF _ _ 1] fmt_06d_no_sep by blast
  then show ?thesis using fmt_06d_inj by blast
qed

lemma split_generate:
  assumes "CHR ''_'' \<notin> set b"
  shows "py_split CHR ''_'' (generate_qr_code_data ts b n) = [''QRTF'', b, fmt_06d n, hash_hex ts b n]"
proof -
  have q: "CHR ''_'' \<notin> set ''QRTF''" by simp
  show ?thesis
    unfolding generate_shape
    by (simp only: py_split_append [OF q] py_split_append [OF assms]
        py_split_append [OF fmt_06d_no_sep] py_split_no_sep [OF conjunct2 [OF hash_hex_props]])
qed

lemma startswith_generate: "py_startswith (generate_qr_code_data ts b n) ''QRTF_''"
  by (simp add: generate_shape py_startswith_def)

lemma py_isdigit_ascii: "s \<noteq> [] \<Longrightarrow> list_all is_ascii_digit s \<Longrightarrow> py_isdigit s"
  by (auto simp: py_isdigit_def py_isdigit_char_def list_all_iff)

lemma roundtrip:
  assumes "CHR ''_'' \<notin> set b" "0 \<le> n" "n \<le> 999999"
  shows "extract_qr_code_info (generate_qr_code_data ts b n) = QR_info ''QRTF'' b n (hash_hex ts b n)"
proof -
  have f: "length (fmt_06d n) = 6" "list_all is_ascii_digit (fmt_06d n)"
    using fmt_06d_in_range [OF assms(2,3)] by auto
  then have d: "py_isdigit (fmt_06d n)" by (intro py_isdigit_ascii) auto
  have v: "validate_qr_code_data (generate_qr_code_data ts b n)"
    using f d hash_hex_props
    by (simp add: validate_qr_code_data_def startswith_generate split_generate [OF assms(1)])
  show ?thesis
    by (simp add: extract_qr_code_info_def v split_generate [OF assms(1)] py_int_fmt_06d)
qed

lemma py_split_Cons:
  "py_split sep s = p # ps \<Longrightarrow>
     sep \<notin> set p \<and> (if ps = [] then s = p else (\<exists>r. s = p @ sep # r \<and> py_split sep r = ps))"
proof (induction s arbitrary: p ps)
  case Nil
  then show ?case by auto
next
  case (Cons c cs)
  show ?case
  proof (cases "c = sep")
    case True
    with Cons.prems show ?thesis by (auto simp: py_split_not_Nil)
  next
    case False
    obtain q qs where q: "py_split sep cs = q # qs"
      using py_split_not_Nil [of sep cs] by (cases "py_split sep cs") auto
    with Cons.prems False have p: "p = c # q" "ps = qs" by auto
    from Cons.IH [OF q] False p show ?thesis by auto
  qed
qed

lemma py_split_four:
  assumes "py_split sep s = [p0, p1, p2, p3]"
  shows "s = p0 @ sep # p1 @ sep # p2 @ sep # p3 \<and> sep \<notin> set p0 \<and> sep \<notin> set p1 \<and> sep \<notin> set p2 \<and> sep \<notin> set p3"
proof -
  from py_split_Cons [OF assms] obtain r0 where
    0: "sep \<notin> set p0" "s = p0 @ sep # r0" "py_split sep r0 = [p1, p2, p3]" by auto
  from py_split_Cons [OF 0(3)] obtain r1 where
    1: "sep \<notin> set p1" "r0 = p1 @ sep # r1" "py_split sep r1 = [p2, p3]" by auto
  from py_split_Cons [OF 1(3)] obtain r2 where
    2: "sep \<notin> set p2" "r1 = p2 @ sep # r2" "py_split sep r2 = [p3]" by auto
  from py_split_Cons [OF 2(3)] have 3: "sep \<notin> set p3" "r2 = p3" by auto
  show ?thesis using 0 1 2 3 by simp
qed

lemma py_split_four_iff:
  "py_split sep s = [p0, p1, p2, p3] \<longleftrightarrow>
     s = p0 @ sep # p1 @ sep # p2 @ sep # p3 \<and> sep \<notin> set p0 \<and> sep \<notin> set p1 \<and> sep \<notin> set p2 \<and> sep \<notin> set p3"
  using py_split_four [of sep s p0 p1 p2 p3]
  by (auto simp: py_split_append py_split_no_sep)

lemma startswith_QRTF:
  assumes "CHR ''_'' \<notin> set p0"
  shows "py_startswith (p0 @ CHR ''_'' # r) ''QRTF_'' \<longleftrightarrow> p0 = ''QRTF''"
proof
  assume a: "py_startswith (p0 @ CHR ''_'' # r) ''QRTF_''"
  define x where "x = p0 @ CHR ''_'' # r"
  have "take (length ''QRTF_'') x @ drop (length ''QRTF_'') x = x" by (rule append_take_drop_id)
  moreover have "take (length ''QRTF_'') x = ''QRTF_''" using a by (simp only: py_startswith_def x_def)
  ultimately have "''QRTF_'' @ drop (length ''QRTF_'') x = x" by (simp only:)
  then have "p0 @ CHR ''_'' # r = ''QRTF'' @ CHR ''_'' # drop (length ''QRTF_'') x"
    by (simp add: x_def)
  then show "p0 = ''QRTF''" using sep_unique [OF assms] by fastforce
next
  assume "p0 = ''QRTF''"
  then show "py_startswith (p0 @ CHR ''_'' # r) ''QRTF_''" by (simp add: py_startswith_def)
qed

lemma validate_iff:
  "validate_qr_code_data s \<longleftrightarrow>
     (\<exists>b q h. s = ''QRTF_'' @ b @ ''_'' @ q @ ''_'' @ h \<and> CHR ''_'' \<notin> set b \<and> CHR ''_'' \<notin> set h \<and>
        py_isdigit q \<and> length q = 6 \<and> length h = 8)"
proof
  assume v: "validate_qr_code_data s"
  then obtain p0 b q h where sp: "py_split CHR ''_'' s = [p0, b, q, h]"
    and c: "py_isdigit q" "length q = 6" "length h = 8" and st: "py_startswith s ''QRTF_''"
    by (auto simp: validate_qr_code_data_def split: if_splits list.splits)
  from py_split_four [OF sp] have
    s: "s = p0 @ CHR ''_'' # b @ CHR ''_'' # q @ CHR ''_'' # h" and
    n: "CHR ''_'' \<notin> set p0" "CHR ''_'' \<notin> set b" "CHR ''_'' \<notin> set h" by auto
  have "p0 = ''QRTF''" using st startswith_QRTF [OF n(1)] s by blast
  with s n c show "\<exists>b q h. s = ''QRTF_'' @ b @ ''_'' @ q @ ''_'' @ h \<and> CHR ''_'' \<notin> set b \<and> CHR ''_'' \<notin> set h \<and>
        py_isdigit q \<and> length q = 6 \<and> length h = 8" by auto
next
  assume "\<exists>b q h. s = ''QRTF_'' @ b @ ''_'' @ q @ ''_'' @ h \<and> CHR ''_'' \<notin> set b \<and> CHR ''_'' \<notin> set h \<and>
        py_isdigit q \<and> length q = 6 \<and> length h = 8"
  then obtain b q h where s: "s = ''QRTF'' @ CHR ''_'' # b @ CHR ''_'' # q @ CHR ''_'' # h"
    and n: "CHR ''_'' \<notin> set b" "CHR ''_'' \<notin> set h" and c: "py_isdigit q" "length q = 6" "length h = 8"
    by auto
  have nq: "CHR ''_'' \<notin> set q"
    using c(1) by (auto simp: py_isdigit_def list_all_iff dest: isdigit_char_not_special)
  have q0: "CHR ''_'' \<notin> set ''QRTF''" by simp
  have sp: "py_split CHR ''_'' s = [''QRTF'', b, q, h]"
    unfolding s by (simp only: py_split_append [OF q0] py_split_append [OF n(1)]
        py_split_append [OF nq] py_split_no_sep [OF n(2)])
  have st: "py_startswith s ''QRTF_''" by (simp add: s py_startswith_def)
  show "validate_qr_code_data s" using c by (simp add: validate_qr_code_data_def sp st)
qed

lemma length_dec_digits_lower: "10 ^ k \<le> n \<Longrightarrow> k < length (dec_digits n)"
proof (induction n arbitrary: k rule: dec_digits.induct)
  case (1 n)
  show ?case
  proof (cases "n < 10")
    case True
    have "k = 0"
    proof (rule ccontr)
      assume "k \<noteq> 0"
      then have "(10::int) ^ 1 \<le> 10 ^ k" by (intro power_increasing) auto
      with 1(2) True show False by simp
    qed
    then show ?thesis by (subst dec_digits.simps) simp
  next
    case False
    show ?thesis
    proof (cases k)
      case 0
      then show ?thesis by (subst dec_digits.simps) simp
    next
      case (Suc j)
      with 1(2) have "10 ^ j \<le> n div 10" by simp
      with 1(1) False have "j < length (dec_digits (n div 10))" by simp
      with False Suc show ?thesis by (subst dec_digits.simps) simp
    qed
  qed
qed

lemma fmt_06d_valid_iff:
  "py_isdigit (fmt_06d n) \<and> length (fmt_06d n) = 6 \<longleftrightarrow> 0 \<le> n \<and> n \<le> 999999"
proof
  assume a: "py_isdigit (fmt_06d n) \<and> length (fmt_06d n) = 6"
  have 1: "0 \<le> n"
  proof (rule ccontr)
    assume "\<not> 0 \<le> n"
    then have "hd (fmt_06d n) = CHR ''-''" by (simp add: fmt_06d_def)
    moreover have "py_isdigit_char (hd (fmt_06d n))"
      using a by (cases "fmt_06d n") (auto simp: py_isdigit_def)
    ultimately show False using isdigit_char_not_special by metis
  qed
  have 2: "n \<le> 999999"
  proof (rule ccontr)
    assume "\<not> n \<le> 999999"
    then have "10 ^ 6 \<le> n" by simp
    then have "6 < length (dec_digits n)" by (rule length_dec_digits_lower)
    then show False using a 1 by (simp add: fmt_06d_def zfill_def)
  qed
  from 1 2 show "0 \<le> n \<and> n \<le> 999999" ..
next
  assume a: "0 \<le> n \<and> n \<le> 999999"
  then have f: "length (fmt_06d n) = 6" "list_all is_ascii_digit (fmt_06d n)"
    using fmt_06d_in_range [of n] by auto
  then have "py_isdigit (fmt_06d n)" by (intro py_isdigit_ascii) auto
  with f show "py_isdigit (fmt_06d n) \<and> length (fmt_06d n) = 6" by simp
qed

lemma validate_generate_iff:
  "validate_qr_code_data (generate_qr_code_data ts b n) \<longleftrightarrow>
     CHR ''_'' \<notin> set b \<and> 0 \<le> n \<and> n \<le> 999999"
proof
  assume "validate_qr_code_data (generate_qr_code_data ts b n)"
  then obtain b' q h where
    s: "generate_qr_code_data ts b n = ''QRTF_'' @ b' @ ''_'' @ q @ ''_'' @ h" and
    n: "CHR ''_'' \<notin> set b'" "CHR ''_'' \<notin> set h" and
    c: "py_isdigit q" "length q = 6" "length h = 8"
    unfolding validate_iff by blast
  have nq: "CHR ''_'' \<notin> set q"
    using c(1) by (auto simp: py_isdigit_def list_all_iff dest: isdigit_char_not_special)
  have e: "(b @ CHR ''_'' # fmt_06d n) @ CHR ''_'' # hash_hex ts b n = (b' @ CHR ''_'' # q) @ CHR ''_'' # h"
    using s by (simp add: generate_shape)
  have 1: "b @ CHR ''_'' # fmt_06d n = b' @ CHR ''_'' # q"
    using sep_unique_right [OF _ _ e] hash_hex_props n(2) by blast
  have "b = b' \<and> fmt_06d n = q"
    using sep_unique_right [OF _ _ 1] fmt_06d_no_sep nq by blast
  with n c show "CHR ''_'' \<notin> set b \<and> 0 \<le> n \<and> n \<le> 999999"
    using fmt_06d_valid_iff [of n] by blast
next
  assume a: "CHR ''_'' \<notin> set b \<and> 0 \<le> n \<and> n \<le> 999999"
  then have "is_valid (extract_qr_code_info (generate_qr_code_data ts b n))"
    by (simp add: roundtrip)
  then show "validate_qr_code_data (generate_qr_code_data ts b n)"
    by (auto simp: extract_qr_code_info_def split: if_splits)
qed

lemma claimed_format_imp_validate: "claimed_format s \<Longrightarrow> validate_qr_code_data s"
  by (auto simp: claimed_format_def validate_qr_code_data_def py_isdigit_def py_isdigit_char_def
      list_all_iff split: list.splits)

lemma validate_imp_claimed_format:
  "validate_qr_code_data s \<Longrightarrow> CHR 0xB2 \<notin> set s \<Longrightarrow> CHR 0xB3 \<notin> set s \<Longrightarrow> CHR 0xB9 \<notin> set s \<Longrightarrow>
     claimed_format s"
proof -
  assume v: "validate_qr_code_data s" and n: "CHR 0xB2 \<notin> set s" "CHR 0xB3 \<notin> set s" "CHR 0xB9 \<notin> set s"
  from v obtain p0 b q h where sp: "py_split CHR ''_'' s = [p0, b, q, h]"
    and c: "py_isdigit q" "length q = 6" "length h = 8" and st: "py_startswith s ''QRTF_''"
    by (auto simp: validate_qr_code_data_def split: if_splits list.splits)
  from py_split_four [OF sp] have "set q \<subseteq> set s" by auto
  with n c(1) have "list_all is_ascii_digit q"
    by (auto simp: py_isdigit_def py_isdigit_char_def list_all_iff)
  with sp c st show ?thesis by (simp add: claimed_format_def)
qed

lemma is_valid_extract_iff:
  "is_valid (extract_qr_code_info s) \<longleftrightarrow>
     validate_qr_code_data s \<and> list_all is_ascii_digit (py_split CHR ''_'' s ! 2)"
proof (cases "validate_qr_code_data s")
  case False
  then show ?thesis by (simp add: extract_qr_code_info_def)
next
  case True
  then obtain p0 b q h where sp: "py_split CHR ''_'' s = [p0, b, q, h]"
    and c: "py_isdigit q"
    by (auto simp: validate_qr_code_data_def split: if_splits list.splits)
  have q: "q \<noteq> []" "list_all py_isdigit_char q" using c by (auto simp: py_isdigit_def)
  show ?thesis
  proof (cases "list_all is_ascii_digit q")
    case a: True
    show ?thesis using True a by (simp add: extract_qr_code_info_def sp py_int_digits [OF q(1) a])
  next
    case a: False
    show ?thesis using True a by (simp add: extract_qr_code_info_def sp py_int_not_digits [OF q(2) a])
  qed
qed

section \<open>Facts about the document store and the routers\<close>

lemma find_update_one:
  "(\<And>x. P x \<Longrightarrow> P (f x)) \<Longrightarrow> find P (update_one P f xs) = map_option f (find P xs)"
  by (induction xs) auto

lemma map_update_one: "(\<And>x. g (f x) = g x) \<Longrightarrow> map g (update_one P f xs) = map g xs"
  by (induction xs) auto

lemma insert_one_qr_distinct:
  "insert_one_qr doc coll = Some coll' \<Longrightarrow> distinct (map qrCode coll) \<Longrightarrow> distinct (map qrCode coll')"
  by (auto simp: insert_one_qr_def split: if_splits)


lemma generate_loop_distinct:
  "generate_loop clock ids cb mm mo b is coll acc = (r, coll') \<Longrightarrow>
     distinct (map qrCode coll) \<Longrightarrow> distinct (map qrCode coll')"
proof (induction "is" arbitrary: coll acc)
  case Nil
  then show ?case by simp
next
  case (Cons i "is")
  then show ?case
    by (auto simp: Let_def split: option.splits dest: insert_one_qr_distinct)
qed



lemma set_update_data_fields:
  "inst_status (set_update_data req s d) = s"
  "inst_id (set_update_data req s d) = inst_id d"
  "qrCodeId (set_update_data req s d) = qrCodeId d"
  by (simp_all add: set_update_data_def Let_def)

lemma find_Some_key: "find P xs = Some x \<Longrightarrow> P x"
  by (induction xs) (auto split: if_splits)

lemma update_status_result:
  assumes "check_permissions (upd_role req) ''installations''" "upd_status req = Some s"
    "s \<in> set valid_statuses"
    "find (\<lambda>i. inst_id i = upd_installation_id req) (fitting_installations db) = Some inst"
  shows "update_installation_status req db =
     (Inr (set_update_data req s inst),
      db\<lparr>fitting_installations :=
            update_one (\<lambda>i. inst_id i = upd_installation_id req) (set_update_data req s)
              (fitting_installations db),
         qr_codes := update_one (\<lambda>q. qr_id q = qrCodeId inst) (\<lambda>q. q\<lparr>qr_status := s\<rparr>) (qr_codes db)\<rparr>)"
proof -
  have ne: "s \<noteq> []" using assms(3) by (auto simp: valid_statuses_def)
  have f: "find (\<lambda>i. inst_id i = upd_installation_id req)
             (update_one (\<lambda>i. inst_id i = upd_installation_id req) (set_update_data req s)
               (fitting_installations db)) = Some (set_update_data req s inst)"
    by (simp add: find_update_one set_update_data_fields assms(4))
  show ?thesis
    using assms ne by (simp add: update_installation_status_def py_not_def Let_def f)
qed

lemma update_status_cases:
  "update_installation_status req db = (Inl (HTTPException 403 ''Insufficient permissions''), db) \<and>
     \<not> check_permissions (upd_role req) ''installations''
   \<or> update_installation_status req db = (Inl (HTTPException 400 ''Status is required''), db) \<and>
     py_not (upd_status req)
   \<or> update_installation_status req db = (Inl (HTTPException 400 invalid_status_detail), db) \<and>
     (\<exists>s. upd_status req = Some s \<and> s \<notin> set valid_statuses)
   \<or> update_installation_status req db = (Inl (HTTPException 404 ''Installation not found''), db) \<and>
     find (\<lambda>i. inst_id i = upd_installation_id req) (fitting_installations db) = None
   \<or> (\<exists>s inst. check_permissions (upd_role req) ''installations'' \<and> upd_status req = Some s \<and>
        s \<in> set valid_statuses \<and>
        find (\<lambda>i. inst_id i = upd_installation_id req) (fitting_installations db) = Some inst)"
proof (cases "check_permissions (upd_role req) ''installations''")
  case False
  then show ?thesis by (simp add: update_installation_status_def)
next
  case perm: True
  show ?thesis
  proof (cases "py_not (upd_status req)")
    case True
    with perm show ?thesis by (simp add: update_installation_status_def)
  next
    case False
    then obtain s where s: "upd_status req = Some s" by (auto simp: py_not_def)
    show ?thesis
    proof (cases "s \<in> set valid_statuses")
      case False
      with perm s \<open>\<not> py_not (upd_status req)\<close> show ?thesis
        by (simp add: update_installation_status_def Let_def)
    next
      case True
      show ?thesis
      proof (cases "find (\<lambda>i. inst_id i = upd_installation_id req) (fitting_installations db)")
        case None
        with perm s True \<open>\<not> py_not (upd_status req)\<close> show ?thesis
          by (simp add: update_installation_status_def Let_def)
      next
        case (Some inst)
        with perm s True show ?thesis by blast
      qed
    qed
  qed
qed

lemmas ex_defs = ex_db0_def ex_generate_def ex_qr_def ex_installation_def ex_db_qr_def
  ex_db_installed_def ex_install_def ex_update_def

lemma perm_operator:
  "check_permissions ''operator'' ''installations''" "check_permissions ''operator'' ''qr_codes''"
  by (simp_all add: check_permissions_def role_hierarchy_def)

lemma ex_update_result:
  "s \<in> set valid_statuses \<Longrightarrow>
   update_installation_status (ex_update s) (ex_db_installed st) =
     (Inr (set_update_data (ex_update s) s (ex_installation st)),
      \<lparr> fitting_batches = [\<lparr> batch_id = ''B1'', qrCodesGenerated = Some 1, qrCodeCount = None \<rparr>],
        qr_codes = [ex_qr s],
        fitting_installations = [set_update_data (ex_update s) s (ex_installation st)] \<rparr>)"
  by (subst update_status_result [where s = s and inst = "ex_installation st"])
    (simp_all add: perm_operator ex_defs)

lemma create_installation_rejected:
  "\<not> request_accepted req \<Longrightarrow> \<exists>e. create_installation new_id feb29 req db = (Inl e, db)"
  by (auto simp: request_accepted_def create_installation_def split: option.splits prod.splits)

lemma create_installation_accepted:
  assumes "request_accepted req"
  shows "create_installation new_id feb29 req db =
     (case find (\<lambda>q. qr_id q = the (ins_qrCodeId req)) (qr_codes db) of
        None \<Rightarrow> (Inl (HTTPException 404 ''QR code not found''), db)
      | Some qr_code \<Rightarrow>
          (case find (\<lambda>i. qrCodeId i = the (ins_qrCodeId req)) (fitting_installations db) of
             Some existing \<Rightarrow> (Inl (HTTPException 400 ''QR code is already installed''), db)
           | None \<Rightarrow>
               if feb29 \<or> new_id \<in> set (map inst_id (fitting_installations db))
               then (Inl (HTTPException 500 ''Failed to create installation''), db)
               else (Inr (new_installation new_id req),
                     db\<lparr>fitting_installations := fitting_installations db @ [new_installation new_id req],
                        qr_codes :=
                          update_one (\<lambda>q. qr_id q = the (ins_qrCodeId req))
                            (\<lambda>q. q\<lparr>qr_status := ''installed'', qr_installedBy := Some (ins_userId req)\<rparr>)
                            (qr_codes db)\<rparr>)))"
proof -
  have c: "\<not> (case ins_installationCoordinates req of None \<Rightarrow> False
             | Some (lat, lng) \<Rightarrow> \<not> validate_gps_coordinates lat lng)"
    using assms by (auto simp: request_accepted_def split: option.splits)
  have n: "find (\<lambda>i. qrCodeId i = k) xs = None \<Longrightarrow> k \<notin> qrCodeId ` set xs" for k xs
    by (auto simp: find_None_iff)
  show ?thesis
    using assms c
    by (auto simp: request_accepted_def create_installation_def Let_def new_installation_def
        insert_one_installation_def split: option.splits dest: n)
qed

lemma create_installation_success:
  assumes "create_installation new_id feb29 req db = (Inr inst, db')"
  shows "request_accepted req \<and>
         (\<exists>q. find (\<lambda>q. qr_id q = the (ins_qrCodeId req)) (qr_codes db) = Some q) \<and>
         find (\<lambda>i. qrCodeId i = the (ins_qrCodeId req)) (fitting_installations db) = None \<and>
         inst = new_installation new_id req \<and>
         db' = db\<lparr>fitting_installations := fitting_installations db @ [new_installation new_id req],
                 qr_codes :=
                   update_one (\<lambda>q. qr_id q = the (ins_qrCodeId req))
                     (\<lambda>q. q\<lparr>qr_status := ''installed'', qr_installedBy := Some (ins_userId req)\<rparr>)
                     (qr_codes db)\<rparr>"
proof -
  have a: "request_accepted req"
    using assms create_installation_rejected [of req new_id feb29 db] by auto
  show ?thesis
    using assms a unfolding create_installation_accepted [OF a]
    by (auto split: option.splits if_splits)
qed

lemma ex_install_accepted: "request_accepted ex_install"
  by (simp add: request_accepted_def ex_install_def perm_operator py_not_def
      validate_gps_coordinates_def)

lemma find_app: "find P (xs @ ys) = (case find P xs of None \<Rightarrow> find P ys | Some x \<Rightarrow> Some x)"
  by (induction xs) auto




lemma generate_batch_distinct:
  assumes "distinct (map qrCode (qr_codes db))"
  shows "distinct (map qrCode (qr_codes (snd (generate_batch_qr_codes clock ids req db))))"
proof -
  have "distinct (map qrCode coll)"
    if "generate_loop clock ids cb mm mo b is (qr_codes db) [] = (r, coll)" for cb mm mo b "is" r coll
    using generate_loop_distinct [OF that assms] .
  then show ?thesis
    using assms
    by (auto simp: generate_batch_qr_codes_def Let_def simp del: generate_loop.simps
        split: option.splits prod.splits)
qed

lemma create_installation_qrCodes:
  "map qrCode (qr_codes (snd (create_installation new_id feb29 req db))) = map qrCode (qr_codes db)"
proof (cases "request_accepted req")
  case True
  show ?thesis
    by (simp add: create_installation_accepted [OF True] map_update_one split: option.splits)
next
  case False
  from create_installation_rejected [OF this, of new_id feb29 db] show ?thesis by auto
qed

lemma update_status_qrCodes:
  "map qrCode (qr_codes (snd (update_installation_status req db))) = map qrCode (qr_codes db)"
  using update_status_cases [of req db]
  by (auto simp: update_status_result map_update_one)



lemma generate_for_batch_distinct:
  assumes "distinct (map qrCode (qr_codes db))"
  shows "distinct (map qrCode (qr_codes (snd (generate_qr_codes_for_batch clock ids b quantity mm mo db))))"
proof -
  have "distinct (map qrCode coll)"
    if "generate_loop clock ids cb mm mo b is (qr_codes db) [] = (r, coll)" for cb mm mo b "is" r coll
    using generate_loop_distinct [OF that assms] .
  then show ?thesis
    using assms
    by (auto simp: generate_qr_codes_for_batch_def simp del: generate_loop.simps
        split: option.splits prod.splits)
qed


lemma handle_distinct:
  "distinct (map qrCode (qr_codes db)) \<Longrightarrow> distinct (map qrCode (qr_codes (handle c db)))"
  by (cases c)
    (simp_all add: generate_batch_distinct generate_for_batch_distinct
      create_installation_qrCodes update_status_qrCodes)

lemma serve_distinct:
  "distinct (map qrCode (qr_codes db)) \<Longrightarrow> distinct (map qrCode (qr_codes (serve calls db)))"
  unfolding serve_def by (induction calls arbitrary: db) (simp_all add: handle_distinct)


section \<open>The claims\<close>

text \<open>
  Claim C1 (uniqueness). Two invocations of \<open>generate_qr_code_data\<close> with distinct
  (batch id, sequence number) pairs give distinct code strings, whatever the times of the
  two calls; and the store never holds two records with equal \<open>qrCode\<close> strings: a
  store whose \<open>qrCode\<close> strings are pairwise distinct (the empty one, for instance) has
  pairwise distinct \<open>qrCode\<close> strings after any sequence of calls of the routers and the
  service, whatever their outcomes, since the unique index on \<open>qrCode\<close> refuses a
  duplicate.
\<close>

theorem qr_code_strings_unique:
  "((b1, n1) \<noteq> (b2, n2) \<longrightarrow>
      generate_qr_code_data t1 b1 n1 \<noteq> generate_qr_code_data t2 b2 n2) \<and>
   (distinct (map qrCode (qr_codes db)) \<longrightarrow> distinct (map qrCode (qr_codes (serve calls db))))"
  using generate_inj [of t1 b1 n1 t2 b2 n2] by (auto simp: serve_distinct)

theorem qr_code_strings_unique_witness:
  "generate_qr_code_data 1700000000 ''B1'' 1 \<noteq> generate_qr_code_data 1700000000 ''B1'' 2 \<and>
   generate_qr_code_data 1700000000 ''B1'' 1 \<noteq> generate_qr_code_data 1700000000 ''B2'' 1 \<and>
   distinct (map qrCode (qr_codes (serve
     [Generate_batch (\<lambda>i. 1700000000) (\<lambda>i. ''q1'') ex_generate,
      Generate_batch (\<lambda>i. 1700000000) (\<lambda>i. ''q2'') ex_generate,
      Generate_for_batch (\<lambda>i. 1700000001) (\<lambda>i. ''q3'') ''B1'' 1 None None] ex_db0)))"
proof -
  have d: "distinct (map qrCode (qr_codes ex_db0))" by (simp add: ex_db0_def)
  from qr_code_strings_unique [of "''B1''" 1 "''B1''" 2 1700000000 1700000000 ex_db0]
    qr_code_strings_unique [of "''B1''" 1 "''B2''" 1 1700000000 1700000000]
    d
  show ?thesis by simp
qed

text \<open>
  Claim C2 (round trip), as amended. \<open>extract_qr_code_info\<close> applied to
  \<open>generate_qr_code_data(batch_id, seq)\<close> returns \<open>is_valid=True\<close> with the original
  batch id and sequence number exactly when the batch id contains no underscore and
  \<open>0 \<le> seq \<le> 999999\<close>; for every other batch id or sequence number it returns the
  invalid-format dictionary. The claim as stated, for every batch id and every sequence
  number, fails: a batch id with an underscore gives five parts, a sequence number above
  999999 gives seven digits, a negative one a sign.
\<close>

theorem qr_roundtrip:
  "extract_qr_code_info (generate_qr_code_data ts b n) =
     (if CHR ''_'' \<notin> set b \<and> 0 \<le> n \<and> n \<le> 999999
      then QR_info ''QRTF'' b n (hash_hex ts b n)
      else QR_invalid Invalid_QR_format)"
proof (cases "CHR ''_'' \<notin> set b \<and> 0 \<le> n \<and> n \<le> 999999")
  case True
  then show ?thesis by (simp add: roundtrip)
next
  case False
  then have "\<not> validate_qr_code_data (generate_qr_code_data ts b n)"
    by (simp only: validate_generate_iff not_False_eq_True)
  with False show ?thesis by (simp add: extract_qr_code_info_def)
qed

theorem qr_roundtrip_witness:
  "extract_qr_code_info (generate_qr_code_data 1700000000 ''B1'' 1) =
     QR_info ''QRTF'' ''B1'' 1 (hash_hex 1700000000 ''B1'' 1)"
  using qr_roundtrip [of 1700000000 "''B1''" 1] by simp

theorem qr_roundtrip_counterexample:
  "extract_qr_code_info (generate_qr_code_data 1700000000 ''batch_id'' 1) = QR_invalid Invalid_QR_format \<and>
   extract_qr_code_info (generate_qr_code_data 1700000000 ''B1'' 1000000) = QR_invalid Invalid_QR_format \<and>
   extract_qr_code_info (generate_qr_code_data 1700000000 ''B1'' (- 1)) = QR_invalid Invalid_QR_format"
  by (simp add: validate_generate_iff extract_qr_code_info_def)

text \<open>
  Claim C3 (status propagation). Whenever \<open>update_installation_status\<close> succeeds, the
  request carried a status \<open>s\<close> among installed, in_service, maintenance_due, replaced
  and retired, the installation it returns and stores has status \<open>s\<close>, and the
  QRCodeRecord linked by the installation's \<open>qrCodeId\<close> is the record it was before with
  its status set to \<open>s\<close>; so after an update to retired the linked record is retired.
\<close>

theorem status_propagation:
  assumes "update_installation_status req db = (Inr updated, db')"
  shows "\<exists>s. upd_status req = Some s \<and> s \<in> set valid_statuses \<and> inst_status updated = s \<and>
           find (\<lambda>i. inst_id i = upd_installation_id req) (fitting_installations db') = Some updated \<and>
           find (\<lambda>q. qr_id q = qrCodeId updated) (qr_codes db') =
             map_option (\<lambda>q. q\<lparr>qr_status := s\<rparr>) (find (\<lambda>q. qr_id q = qrCodeId updated) (qr_codes db))"
proof -
  from update_status_cases [of req db] assms obtain s inst where
    h: "check_permissions (upd_role req) ''installations''" "upd_status req = Some s"
       "s \<in> set valid_statuses"
       "find (\<lambda>i. inst_id i = upd_installation_id req) (fitting_installations db) = Some inst"
    by auto
  from update_status_result [OF h] assms have
    u: "updated = set_update_data req s inst" and
    d: "db' = db\<lparr>fitting_installations :=
            update_one (\<lambda>i. inst_id i = upd_installation_id req) (set_update_data req s)
              (fitting_installations db),
         qr_codes := update_one (\<lambda>q. qr_id q = qrCodeId inst) (\<lambda>q. q\<lparr>qr_status := s\<rparr>) (qr_codes db)\<rparr>"
    by auto
  show ?thesis
    by (rule exI [of _ s])
      (simp add: h u d set_update_data_fields find_update_one)
qed

theorem status_propagation_witness:
  "inst_status (set_update_data (ex_update ''retired'') ''retired'' (ex_installation ''in_service'')) = ''retired'' \<and>
   find (\<lambda>q. qr_id q = ''q1'')
     (qr_codes (snd (update_installation_status (ex_update ''retired'') (ex_db_installed ''in_service'')))) =
     Some (ex_qr ''retired'')"
proof -
  have r: "update_installation_status (ex_update ''retired'') (ex_db_installed ''in_service'') =
     (Inr (set_update_data (ex_update ''retired'') ''retired'' (ex_installation ''in_service'')),
      \<lparr> fitting_batches = [\<lparr> batch_id = ''B1'', qrCodesGenerated = Some 1, qrCodeCount = None \<rparr>],
        qr_codes = [ex_qr ''retired''],
        fitting_installations =
          [set_update_data (ex_update ''retired'') ''retired'' (ex_installation ''in_service'')] \<rparr>)"
    by (rule ex_update_result) (simp add: valid_statuses_def)
  from status_propagation [OF r] show ?thesis
    by (simp add: r) (simp add: ex_defs)
qed







text \<open>
  Claim C6 (idempotent installation). After a successful \<open>create_installation\<close>, every
  further call with the same \<open>qrCodeId\<close> fails and leaves the store as the first call
  left it; when the second request passes the checks on its fields, the error is the
  conflict error HTTP 400 "QR code is already installed". The store then holds exactly one
  installation for that \<open>qrCodeId\<close>, the one the first call created.
\<close>

theorem idempotent_installation:
  assumes "create_installation id1 f1 req1 db = (Inr inst1, db1)"
    and "ins_qrCodeId req2 = ins_qrCodeId req1"
  shows "(\<exists>e. create_installation id2 f2 req2 db1 = (Inl e, db1)) \<and>
         (request_accepted req2 \<longrightarrow>
            create_installation id2 f2 req2 db1 =
              (Inl (HTTPException 400 ''QR code is already installed''), db1)) \<and>
         filter (\<lambda>i. Some (qrCodeId i) = ins_qrCodeId req1) (fitting_installations db1) = [inst1]"
proof -
  let ?k = "the (ins_qrCodeId req1)"
  from create_installation_success [OF assms(1)] obtain q where
    a: "request_accepted req1" and
    q: "find (\<lambda>q. qr_id q = ?k) (qr_codes db) = Some q" and
    n: "find (\<lambda>i. qrCodeId i = ?k) (fitting_installations db) = None" and
    i: "inst1 = new_installation id1 req1" and
    d: "db1 = db\<lparr>fitting_installations := fitting_installations db @ [new_installation id1 req1],
                 qr_codes :=
                   update_one (\<lambda>q. qr_id q = ?k)
                     (\<lambda>q. q\<lparr>qr_status := ''installed'', qr_installedBy := Some (ins_userId req1)\<rparr>)
                     (qr_codes db)\<rparr>"
    by blast
  from a obtain k where k: "ins_qrCodeId req1 = Some k" by (auto simp: request_accepted_def py_not_def)
  have nk: "\<forall>x\<in>set (fitting_installations db). qrCodeId x \<noteq> k"
    using n k by (auto simp: find_None_iff)
  have q1: "find (\<lambda>q. qr_id q = k) (qr_codes db1) \<noteq> None"
    using q k by (simp add: d find_update_one)
  have i1: "find (\<lambda>i. qrCodeId i = k) (fitting_installations db1) = Some inst1"
    using nk k n by (simp add: d i find_app new_installation_def)
  have acc: "create_installation id2 f2 req2 db1 =
              (Inl (HTTPException 400 ''QR code is already installed''), db1)"
    if "request_accepted req2"
    using q1 i1 assms(2) k by (auto simp: create_installation_accepted [OF that])
  have rej: "\<exists>e. create_installation id2 f2 req2 db1 = (Inl e, db1)"
    using acc create_installation_rejected [of req2 id2 f2 db1] by (cases "request_accepted req2") auto
  have f: "filter (\<lambda>i. Some (qrCodeId i) = ins_qrCodeId req1) (fitting_installations db1) = [inst1]"
    using nk k by (auto simp: d i new_installation_def filter_empty_conv)
  from rej acc f show ?thesis by blast
qed

theorem idempotent_installation_witness:
  "create_installation ''i2'' False ex_install (snd (create_installation ''i1'' False ex_install (ex_db_qr ''verified''))) =
     (Inl (HTTPException 400 ''QR code is already installed''),
      snd (create_installation ''i1'' False ex_install (ex_db_qr ''verified''))) \<and>
   map inst_id (fitting_installations
     (snd (create_installation ''i1'' False ex_install (ex_db_qr ''verified'')))) = [''i1'']"
proof -
  obtain db1 where
    r: "create_installation ''i1'' False ex_install (ex_db_qr ''verified'') =
          (Inr (new_installation ''i1'' ex_install), db1)"
    and m: "map inst_id (fitting_installations db1) = [''i1'']"
    by (simp add: create_installation_accepted [OF ex_install_accepted])
      (simp add: ex_defs new_installation_def)
  from idempotent_installation [OF r refl, of "''i2''" False] ex_install_accepted m
  show ?thesis by (simp add: r)
qed




text \<open>
  Claim C8 (format validation), at an input where the code departs from it.
  \<open>validate_qr_code_data\<close> tests the third part with \<open>str.isdigit\<close>, which also holds
  for the superscript digits: it accepts the string \<open>QRTF_B_00000\<close>, superscript two,
  \<open>_abcdefgh\<close>, whose third part is not six decimal digits. On strings without the three
  superscript digits the function and the claimed format agree
  (\<open>claimed_format_imp_validate\<close>, \<open>validate_imp_claimed_format\<close>).
\<close>

theorem validate_accepts_superscript_digit:
  "validate_qr_code_data (''QRTF_B_00000'' @ [CHR 0xB2] @ ''_abcdefgh'') \<and>
   \<not> claimed_format (''QRTF_B_00000'' @ [CHR 0xB2] @ ''_abcdefgh'')"
  by (simp add: validate_qr_code_data_def claimed_format_def py_startswith_def py_isdigit_def
      py_isdigit_char_def is_ascii_digit_def)

theorem validate_accepts_superscript_digit_witness:
  "validate_qr_code_data (''QRTF_B_00000'' @ [CHR 0xB2] @ ''_abcdefgh'') \<noteq>
   claimed_format (''QRTF_B_00000'' @ [CHR 0xB2] @ ''_abcdefgh'')"
  using validate_accepts_superscript_digit by simp



text \<open>
  Claim C10 (totality of extraction), at an input where the code departs from it.
  \<open>extract_qr_code_info\<close> returns a dictionary for every string, but not with
  \<open>is_valid=True\<close> exactly when \<open>validate_qr_code_data\<close> holds: for the string
  \<open>QRTF_B_00000\<close>, superscript two, \<open>_abcdefgh\<close> the validation holds, \<open>int\<close> raises
  on the third part and the result is the dictionary with \<open>is_valid=False\<close>. In general
  the result is valid exactly when the validation holds and the third part consists of
  ASCII digits (\<open>is_valid_extract_iff\<close>).
\<close>

theorem extract_rejects_validated_code:
  "validate_qr_code_data (''QRTF_B_00000'' @ [CHR 0xB2] @ ''_abcdefgh'') \<and>
   extract_qr_code_info (''QRTF_B_00000'' @ [CHR 0xB2] @ ''_abcdefgh'') =
     QR_invalid (Invalid_int_literal (''00000'' @ [CHR 0xB2]))"
proof -
  have v: "validate_qr_code_data (''QRTF_B_00000'' @ [CHR 0xB2] @ ''_abcdefgh'')"
    by (simp add: validate_qr_code_data_def py_startswith_def py_isdigit_def
        py_isdigit_char_def is_ascii_digit_def)
  have i: "py_int (''00000'' @ [CHR 0xB2]) = None"
    by (rule py_int_not_digits)
      (simp_all add: py_isdigit_char_def is_ascii_digit_def)
  show ?thesis using v i by (simp add: extract_qr_code_info_def)
qed

theorem extract_rejects_validated_code_witness:
  "\<not> is_valid (extract_qr_code_info (''QRTF_B_00000'' @ [CHR 0xB2] @ ''_abcdefgh''))"
  using extract_rejects_validated_code by simp


end
